theory Spec2Isabelle
  imports Main
begin

section \<open>Data model\<close>

text \<open>
  A goal is the object literal \<open>{ text: enteredGoal, id: Math.random().toString() }\<close>
  built in \<open>addNewGoals\<close> (App.js). Both properties are strings. The selectors carry
  the suffix \<open>_prop\<close> because \<open>text\<close> and \<open>id\<close> are taken in Isabelle.
\<close>

record goal =
  text_prop :: string
  id_prop :: string

text \<open>
  React keeps one cell per \<open>useState\<close> call. The store has the two cells of \<open>App\<close>
  (\<open>listOfGoals\<close>, initially \<open>[]\<close>; \<open>modalIsVisible\<close>, initially \<open>false\<close>) and the one
  cell of \<open>GoalInput\<close> (\<open>enteredGoal\<close>, initially \<open>""\<close>). A handler is a function from
  the store before the event to the store after it.
\<close>

record store =
  listOfGoals :: "goal list"
  modalIsVisible :: bool
  enteredGoal :: string

definition initial_store :: store where
  "initial_store = \<lparr>listOfGoals = [], modalIsVisible = False, enteredGoal = ''''\<rparr>"

subsection \<open>The state setters returned by useState\<close>

text \<open>\<open>setListOfGoals\<close> is only ever called with an updater function of the current list.\<close>

definition setListOfGoals :: "(goal list \<Rightarrow> goal list) \<Rightarrow> store \<Rightarrow> store" where
  "setListOfGoals updater s = s\<lparr>listOfGoals := updater (listOfGoals s)\<rparr>"

definition setModalIsVisible :: "bool \<Rightarrow> store \<Rightarrow> store" where
  "setModalIsVisible v s = s\<lparr>modalIsVisible := v\<rparr>"

definition setEnteredGoal :: "string \<Rightarrow> store \<Rightarrow> store" where
  "setEnteredGoal v s = s\<lparr>enteredGoal := v\<rparr>"

section \<open>App.js: the handlers of the root component\<close>

definition modalVisibility :: "store \<Rightarrow> store" where
  "modalVisibility s = setModalIsVisible True s"

definition handleCloseModal :: "store \<Rightarrow> store" where
  "handleCloseModal s = setModalIsVisible False s"

text \<open>
  \<open>rnd\<close> is the string that \<open>Math.random().toString()\<close> returns in this call; the
  pseudo-random source is outside the program, so its result is a parameter.
\<close>

definition addNewGoals :: "string \<Rightarrow> string \<Rightarrow> store \<Rightarrow> store" where
  "addNewGoals rnd entered s =
     setModalIsVisible False
       (setListOfGoals (\<lambda>currentGoals. currentGoals @ [\<lparr>text_prop = entered, id_prop = rnd\<rparr>]) s)"

definition deleteGoal :: "string \<Rightarrow> store \<Rightarrow> store" where
  "deleteGoal goalId s =
     setListOfGoals (\<lambda>currentGoals. filter (\<lambda>goal. id_prop goal \<noteq> goalId) currentGoals) s"

section \<open>The render tree\<close>

text \<open>
  What a component returns: a tree of React Native elements. Only the element kinds that
  \<open>GoalInput\<close> and \<open>ActionButton\<close> use are present. \<open>'e\<close> is the type of the values the
  platform passes to a press handler, \<open>'s\<close> the type of the store. A JavaScript function
  can be called with any number of arguments, so a press handler takes the list of them.
\<close>

datatype style_value = Num int | Str string

type_synonym style = "(string \<times> style_value) list"

datatype ('e, 's) element =
    Modal bool string "('e, 's) element list"
  | View style "('e, 's) element list"
  | Image style string
  | TextInput string string "string \<Rightarrow> 's \<Rightarrow> 's" string style
  | Pressable "'e list \<Rightarrow> 's \<Rightarrow> 's" "('e, 's) element list"
  | Text style string

text \<open>A function declared without parameters ignores whatever it is called with.\<close>

definition nullary :: "('s \<Rightarrow> 's) \<Rightarrow> 'e list \<Rightarrow> 's \<Rightarrow> 's" where
  "nullary f args = f"

subsection \<open>components/GoalInput/styles.js\<close>

definition inputContainer :: style where
  "inputContainer =
     [(''flex'', Num 1), (''flexDirection'', Str ''column''), (''justifyContent'', Str ''center''),
      (''gap'', Num 40), (''paddingHorizontal'', Num 20), (''backgroundColor'', Str ''#311b6b'')]"

definition textInput :: style where
  "textInput =
     [(''borderColor'', Str ''white''), (''borderWidth'', Num 2), (''color'', Str ''#ffffff''),
      (''borderRadius'', Num 20), (''paddingLeft'', Num 16)]"

definition imageStyle :: style where
  "imageStyle = [(''width'', Num 100), (''height'', Num 100)]"

definition actionContainer :: style where
  "actionContainer =
     [(''flexDirection'', Str ''row''), (''justifyContent'', Str ''space-between''),
      (''alignItems'', Str ''center'')]"

definition addGoalButton :: style where
  "addGoalButton =
     [(''backgroundColor'', Str ''#b121fe''), (''paddingVertical'', Num 5),
      (''paddingHorizontal'', Num 20), (''borderRadius'', Num 10)]"

definition cancelButton :: style where
  "cancelButton =
     [(''backgroundColor'', Str ''#fa4326''), (''paddingVertical'', Num 5),
      (''paddingHorizontal'', Num 20), (''borderRadius'', Num 10)]"

subsection \<open>components/GoalInput/ActionButton.js\<close>

definition ActionButton :: "string \<Rightarrow> ('e list \<Rightarrow> 's \<Rightarrow> 's) \<Rightarrow> style \<Rightarrow> ('e, 's) element" where
  "ActionButton content handler styles =
     Pressable handler
       [View styles [Text [(''color'', Str ''white''), (''fontWeight'', Str ''bold'')] content]]"

subsection \<open>components/GoalInput/index.js\<close>

record 'e GoalInput_props =
  addGoalHanlder :: "string \<Rightarrow> store \<Rightarrow> store"
  visibilty :: bool
  closeModal :: "'e list \<Rightarrow> store \<Rightarrow> store"

definition goalInputHandler :: "string \<Rightarrow> store \<Rightarrow> store" where
  "goalInputHandler enteredText s = setEnteredGoal enteredText s"

text \<open>
  \<open>handleAddNewGoal\<close> is a closure of one render: \<open>entered\<close> is the value that
  \<open>enteredGoal\<close> had when the component was rendered, \<open>parentAdd\<close> the \<open>addGoalHanlder\<close>
  prop of that render.
\<close>

definition handleAddNewGoal :: "(string \<Rightarrow> store \<Rightarrow> store) \<Rightarrow> string \<Rightarrow> store \<Rightarrow> store" where
  "handleAddNewGoal parentAdd entered s = setEnteredGoal [] (parentAdd entered s)"

definition GoalInput :: "'e GoalInput_props \<Rightarrow> store \<Rightarrow> ('e, store) element" where
  "GoalInput props s =
     Modal (visibilty props) ''slide''
       [View inputContainer
          [View [(''flexDirection'', Str ''row''), (''justifyContent'', Str ''center'')]
             [Image imageStyle ''../../assets/goal.png''],
           TextInput ''Enter Your Goals'' ''white'' goalInputHandler (enteredGoal s) textInput,
           View actionContainer
             [ActionButton ''Add Goal''
                (nullary (handleAddNewGoal (addGoalHanlder props) (enteredGoal s))) addGoalButton,
              ActionButton ''Cancel'' (closeModal props) cancelButton]]]"

text \<open>
  The \<open>GoalInput\<close> element of \<open>App\<close>'s render, with the props \<open>App\<close> passes. \<open>rnd\<close> is
  what \<open>Math.random().toString()\<close> will return if \<open>addNewGoals\<close> runs.
\<close>

definition App_GoalInput :: "string \<Rightarrow> store \<Rightarrow> ('e, store) element" where
  "App_GoalInput rnd s =
     GoalInput \<lparr>addGoalHanlder = addNewGoals rnd, visibilty = modalIsVisible s,
                closeModal = nullary handleCloseModal\<rparr> s"

subsection \<open>The platform: pressing a pressable region\<close>

text \<open>
  React Native's \<open>Pressable\<close> is not code of this program. An activation calls the
  \<open>onPress\<close> prop once, with the argument list the platform supplies (React Native passes
  the press event). A \<open>Modal\<close> whose \<open>visible\<close> prop is false shows none of its
  children, so nothing inside it can be read or pressed. \<open>label_of\<close> is the text shown
  inside an element; \<open>pressables\<close> lists the pressable regions on screen with their labels
  and handlers, in document order; \<open>press\<close> activates the region with the given label and
  is \<open>None\<close> where no such region is on screen.
\<close>

fun label_of :: "('e, 's) element \<Rightarrow> string" where
  "label_of (Modal v a cs) = (if v then concat (map label_of cs) else [])"
| "label_of (View st cs) = concat (map label_of cs)"
| "label_of (Image st src) = []"
| "label_of (TextInput ph phc h v st) = []"
| "label_of (Pressable h cs) = concat (map label_of cs)"
| "label_of (Text st t) = t"

fun pressables :: "('e, 's) element \<Rightarrow> (string \<times> ('e list \<Rightarrow> 's \<Rightarrow> 's)) list" where
  "pressables (Modal v a cs) = (if v then concat (map pressables cs) else [])"
| "pressables (View st cs) = concat (map pressables cs)"
| "pressables (Image st src) = []"
| "pressables (TextInput ph phc h v st) = []"
| "pressables (Pressable h cs) = (concat (map label_of cs), h) # concat (map pressables cs)"
| "pressables (Text st t) = []"

definition press :: "string \<Rightarrow> ('e, 's) element \<Rightarrow> 'e list \<Rightarrow> 's \<Rightarrow> 's option" where
  "press label el args s =
     (case map_of (pressables el) label of None \<Rightarrow> None | Some h \<Rightarrow> Some (h args s))"

datatype press_event = GestureResponderEvent

section \<open>Sequences of operations\<close>

text \<open>
  An operation on the collection, as the user triggers it: adding a goal with a text
  (together with the id the random source yields for it), or deleting by id.
\<close>

datatype operation = AddItem string string | DeleteItem string

fun step :: "operation \<Rightarrow> store \<Rightarrow> store" where
  "step (AddItem entered rnd) s = addNewGoals rnd entered s"
| "step (DeleteItem goalId) s = deleteGoal goalId s"

definition run :: "operation list \<Rightarrow> store \<Rightarrow> store" where
  "run xs s = fold step xs s"

fun drawn_ids :: "operation list \<Rightarrow> string list" where
  "drawn_ids [] = []"
| "drawn_ids (AddItem entered rnd # xs) = rnd # drawn_ids xs"
| "drawn_ids (DeleteItem goalId # xs) = drawn_ids xs"

text \<open>
  The specification's wording of deletion, to compare with \<open>deleteGoal\<close>: remove the
  first item whose id equals the argument, and nothing else.
\<close>

fun spec_deleteItem :: "string \<Rightarrow> goal list \<Rightarrow> goal list" where
  "spec_deleteItem goalId [] = []"
| "spec_deleteItem goalId (g # gs) =
     (if id_prop g = goalId then gs else g # spec_deleteItem goalId gs)"

section \<open>Auxiliary facts\<close>

lemmas setters = setListOfGoals_def setModalIsVisible_def setEnteredGoal_def

lemmas tree_defs = press_def App_GoalInput_def GoalInput_def ActionButton_def nullary_def

lemma listOfGoals_addNewGoals:
  "listOfGoals (addNewGoals rnd entered s)
     = listOfGoals s @ [\<lparr>text_prop = entered, id_prop = rnd\<rparr>]"
  by (simp add: addNewGoals_def setters)

lemma listOfGoals_deleteGoal:
  "listOfGoals (deleteGoal goalId s)
     = filter (\<lambda>goal. id_prop goal \<noteq> goalId) (listOfGoals s)"
  by (simp add: deleteGoal_def setters)

lemma filter_absent:
  "goalId \<notin> set (map id_prop gs) \<Longrightarrow> filter (\<lambda>goal. id_prop goal \<noteq> goalId) gs = gs"
  by (induction gs) auto

lemma no_match_absent:
  "filter (\<lambda>g. id_prop g = goalId) gs = [] \<Longrightarrow> goalId \<notin> set (map id_prop gs)"
  by (induction gs) (auto split: if_splits)

text \<open>Where at most one item carries the id, filtering is removing the first match.\<close>

lemma filter_is_spec:
  "length (filter (\<lambda>g. id_prop g = goalId) gs) \<le> 1 \<Longrightarrow>
   filter (\<lambda>goal. id_prop goal \<noteq> goalId) gs = spec_deleteItem goalId gs"
proof (induction gs)
  case Nil
  show ?case by simp
next
  case (Cons g gs)
  show ?case
  proof (cases "id_prop g = goalId")
    case True
    with Cons.prems have "filter (\<lambda>g. id_prop g = goalId) gs = []" by simp
    then have "goalId \<notin> set (map id_prop gs)" by (rule no_match_absent)
    then have "filter (\<lambda>goal. id_prop goal \<noteq> goalId) gs = gs" by (rule filter_absent)
    with True show ?thesis by simp
  next
    case False
    with Cons show ?thesis by simp
  qed
qed

lemma length_filter_split:
  "length (filter (\<lambda>goal. id_prop goal \<noteq> goalId) gs)
     + length (filter (\<lambda>g. id_prop g = goalId) gs) = length gs"
  by (induction gs) auto

lemma length_spec_deleteItem: "length gs \<le> length (spec_deleteItem goalId gs) + 1"
  by (induction gs) auto

text \<open>Conversely: the two agree only where at most one item carries the id.\<close>

lemma spec_is_filter_only_if:
  assumes "filter (\<lambda>goal. id_prop goal \<noteq> goalId) gs = spec_deleteItem goalId gs"
  shows "length (filter (\<lambda>g. id_prop g = goalId) gs) \<le> 1"
proof -
  have "length gs \<le> length (filter (\<lambda>goal. id_prop goal \<noteq> goalId) gs) + 1"
    using assms length_spec_deleteItem [of gs goalId] by simp
  with length_filter_split [of goalId gs] show ?thesis by arith
qed

lemma distinct_at_most_one:
  "distinct (map id_prop gs) \<Longrightarrow> length (filter (\<lambda>g. id_prop g = goalId) gs) \<le> 1"
proof (induction gs)
  case Nil
  show ?case by simp
next
  case (Cons g gs)
  show ?case
  proof (cases "id_prop g = goalId")
    case True
    with Cons.prems have "goalId \<notin> set (map id_prop gs)" by auto
    then have "filter (\<lambda>goal. id_prop goal \<noteq> goalId) gs = gs" by (rule filter_absent)
    with length_filter_split [of goalId gs]
    have "length (filter (\<lambda>g. id_prop g = goalId) gs) = 0" by simp
    with True show ?thesis by simp
  next
    case False
    with Cons show ?thesis by simp
  qed
qed

lemma run_Nil: "run [] s = s"
  by (simp add: run_def)

lemma run_Cons: "run (x # xs) s = run xs (step x s)"
  by (simp add: run_def)

lemma run_adds:
  "listOfGoals (run (map (\<lambda>(entered, rnd). AddItem entered rnd) calls) s)
     = listOfGoals s @ map (\<lambda>(entered, rnd). \<lparr>text_prop = entered, id_prop = rnd\<rparr>) calls"
proof (induction calls arbitrary: s)
  case Nil
  show ?case by (simp add: run_Nil)
next
  case (Cons c calls)
  obtain entered rnd where c: "c = (entered, rnd)" by (cases c)
  show ?case
    by (simp add: c run_Cons Cons.IH listOfGoals_addNewGoals)
qed

text \<open>
  The invariant behind unique ids, from any store: the ids present are distinct, the ids
  still to be drawn are distinct, and none of them is present yet.
\<close>

lemma run_distinct:
  "distinct (map id_prop (listOfGoals s)) \<Longrightarrow> distinct (drawn_ids xs) \<Longrightarrow>
   set (map id_prop (listOfGoals s)) \<inter> set (drawn_ids xs) = {} \<Longrightarrow>
   distinct (map id_prop (listOfGoals (run xs s)))"
proof (induction xs arbitrary: s)
  case Nil
  then show ?case by (simp add: run_Nil)
next
  case (Cons x xs)
  show ?case
  proof (cases x)
    case (AddItem entered rnd)
    have "distinct (map id_prop (listOfGoals (step x s)))"
      using Cons.prems by (auto simp: AddItem listOfGoals_addNewGoals)
    moreover have "distinct (drawn_ids xs)"
      using Cons.prems by (simp add: AddItem)
    moreover have "set (map id_prop (listOfGoals (step x s))) \<inter> set (drawn_ids xs) = {}"
      using Cons.prems by (auto simp: AddItem listOfGoals_addNewGoals)
    ultimately show ?thesis
      by (simp add: run_Cons Cons.IH)
  next
    case (DeleteItem goalId)
    have "distinct (map id_prop (listOfGoals (step x s)))"
      using Cons.prems by (simp add: DeleteItem listOfGoals_deleteGoal distinct_map_filter)
    moreover have "distinct (drawn_ids xs)"
      using Cons.prems by (simp add: DeleteItem)
    moreover have "set (map id_prop (listOfGoals (step x s))) \<inter> set (drawn_ids xs) = {}"
      using Cons.prems by (auto simp: DeleteItem listOfGoals_deleteGoal)
    ultimately show ?thesis
      by (simp add: run_Cons Cons.IH)
  qed
qed

section \<open>Deleting a goal\<close>

text \<open>
  Claim C1, as amended. \<open>deleteGoal\<close> filters: it removes every goal whose id equals the
  argument. That is the removal of the first such goal exactly when at most one goal
  carries the id, in particular whenever the ids of the collection are pairwise distinct.
  In every store no goal with that id remains, the goals with another id are kept as they
  are and in their order, and the visibility flag and the draft are not touched.
\<close>

theorem deleteGoal_first_match:
  "(listOfGoals (deleteGoal goalId s) = spec_deleteItem goalId (listOfGoals s))
     = (length (filter (\<lambda>g. id_prop g = goalId) (listOfGoals s)) \<le> 1)
   \<and> (distinct (map id_prop (listOfGoals s)) \<longrightarrow>
        listOfGoals (deleteGoal goalId s) = spec_deleteItem goalId (listOfGoals s))
   \<and> goalId \<notin> set (map id_prop (listOfGoals (deleteGoal goalId s)))
   \<and> filter (\<lambda>g. id_prop g \<noteq> goalId) (listOfGoals (deleteGoal goalId s))
        = filter (\<lambda>g. id_prop g \<noteq> goalId) (listOfGoals s)
   \<and> modalIsVisible (deleteGoal goalId s) = modalIsVisible s
   \<and> enteredGoal (deleteGoal goalId s) = enteredGoal s"
proof -
  have a: "(listOfGoals (deleteGoal goalId s) = spec_deleteItem goalId (listOfGoals s))
     = (length (filter (\<lambda>g. id_prop g = goalId) (listOfGoals s)) \<le> 1)"
    using filter_is_spec [of goalId "listOfGoals s"]
      spec_is_filter_only_if [of goalId "listOfGoals s"]
    by (auto simp: listOfGoals_deleteGoal)
  have b: "distinct (map id_prop (listOfGoals s)) \<longrightarrow>
        listOfGoals (deleteGoal goalId s) = spec_deleteItem goalId (listOfGoals s)"
    using a distinct_at_most_one [of "listOfGoals s" goalId] by blast
  have c: "goalId \<notin> set (map id_prop (listOfGoals (deleteGoal goalId s)))"
    by (auto simp: listOfGoals_deleteGoal)
  have d: "filter (\<lambda>g. id_prop g \<noteq> goalId) (listOfGoals (deleteGoal goalId s))
        = filter (\<lambda>g. id_prop g \<noteq> goalId) (listOfGoals s)"
    by (simp add: listOfGoals_deleteGoal)
  have e: "modalIsVisible (deleteGoal goalId s) = modalIsVisible s
   \<and> enteredGoal (deleteGoal goalId s) = enteredGoal s"
    by (simp add: deleteGoal_def setters)
  from a b c d e show ?thesis by blast
qed

text \<open>
  The scenario of the specification: two goals with different ids, the first deleted.
\<close>

theorem deleteGoal_first_match_witness:
  "distinct (map id_prop (listOfGoals
      (run [AddItem ''Learn Go'' ''0.25'', AddItem ''Learn Rust'' ''0.75''] initial_store)))
   \<and> listOfGoals (deleteGoal ''0.25''
        (run [AddItem ''Learn Go'' ''0.25'', AddItem ''Learn Rust'' ''0.75''] initial_store))
      = spec_deleteItem ''0.25'' (listOfGoals
          (run [AddItem ''Learn Go'' ''0.25'', AddItem ''Learn Rust'' ''0.75''] initial_store))
   \<and> listOfGoals (deleteGoal ''0.25''
        (run [AddItem ''Learn Go'' ''0.25'', AddItem ''Learn Rust'' ''0.75''] initial_store))
      = [\<lparr>text_prop = ''Learn Rust'', id_prop = ''0.75''\<rparr>]"
  using deleteGoal_first_match [of "''0.25''"
      "run [AddItem ''Learn Go'' ''0.25'', AddItem ''Learn Rust'' ''0.75''] initial_store"]
  by (simp add: run_def addNewGoals_def setters initial_store_def)

text \<open>
  Where the random source yields the same string twice, two goals share an id; deleting
  by that id empties the list, while removing the first match would keep the second goal.
\<close>

theorem deleteGoal_first_match_counterexample:
  "listOfGoals (deleteGoal ''0.5''
       (run [AddItem ''Learn Go'' ''0.5'', AddItem ''Learn Rust'' ''0.5''] initial_store))
     \<noteq> spec_deleteItem ''0.5'' (listOfGoals
       (run [AddItem ''Learn Go'' ''0.5'', AddItem ''Learn Rust'' ''0.5''] initial_store))"
  by (simp add: run_def addNewGoals_def deleteGoal_def setters initial_store_def)

text \<open>
  Claim C5. Deleting by an id that no goal of the collection carries changes nothing:
  the store after is the store before, so the list has the same length, the same goals
  and the same order. \<open>deleteGoal\<close> is a total function: there is no error outcome.
\<close>

theorem deleteGoal_absent_id:
  "goalId \<notin> set (map id_prop (listOfGoals s)) \<Longrightarrow>
     deleteGoal goalId s = s
     \<and> listOfGoals (deleteGoal goalId s) = listOfGoals s
     \<and> length (listOfGoals (deleteGoal goalId s)) = length (listOfGoals s)"
  by (simp add: deleteGoal_def setters filter_absent)

theorem deleteGoal_absent_id_witness:
  "''0.9'' \<notin> set (map id_prop (listOfGoals
      (run [AddItem ''Learn Go'' ''0.25'', AddItem ''Learn Rust'' ''0.75''] initial_store)))
   \<and> listOfGoals (deleteGoal ''0.9''
        (run [AddItem ''Learn Go'' ''0.25'', AddItem ''Learn Rust'' ''0.75''] initial_store))
      = [\<lparr>text_prop = ''Learn Go'', id_prop = ''0.25''\<rparr>,
         \<lparr>text_prop = ''Learn Rust'', id_prop = ''0.75''\<rparr>]"
proof -
  let ?s = "run [AddItem ''Learn Go'' ''0.25'', AddItem ''Learn Rust'' ''0.75''] initial_store"
  have h: "''0.9'' \<notin> set (map id_prop (listOfGoals ?s))"
    by (simp add: run_def addNewGoals_def setters initial_store_def)
  from deleteGoal_absent_id [OF h] have "listOfGoals (deleteGoal ''0.9'' ?s) = listOfGoals ?s"
    by simp
  with h show ?thesis
    by (simp add: run_def addNewGoals_def setters initial_store_def)
qed

text \<open>
  Claim C10. Deleting twice by the same id gives the store that deleting once gives,
  because after one call no goal with that id is left, however many carried it.
\<close>

theorem deleteGoal_idempotent:
  "deleteGoal goalId (deleteGoal goalId s) = deleteGoal goalId s
   \<and> filter (\<lambda>g. id_prop g = goalId) (listOfGoals (deleteGoal goalId s)) = []
   \<and> goalId \<notin> set (map id_prop (listOfGoals (deleteGoal goalId s)))"
  by (auto simp: deleteGoal_def setters)

section \<open>Adding goals\<close>

text \<open>
  Claim C2. For every string \<open>entered\<close>, the empty one included, and every store,
  \<open>addNewGoals\<close> puts the goal with that text and the generated id at the end of the
  list and sets the visibility flag to false. There is no other outcome: the function is
  total, and the draft of the form is not touched.
\<close>

theorem addNewGoals_appends:
  "addNewGoals rnd entered s =
     s\<lparr>listOfGoals := listOfGoals s @ [\<lparr>text_prop = entered, id_prop = rnd\<rparr>],
       modalIsVisible := False\<rparr>
   \<and> last (listOfGoals (addNewGoals rnd entered s)) = \<lparr>text_prop = entered, id_prop = rnd\<rparr>
   \<and> butlast (listOfGoals (addNewGoals rnd entered s)) = listOfGoals s
   \<and> modalIsVisible (addNewGoals rnd entered s) = False
   \<and> listOfGoals (addNewGoals rnd [] s) = listOfGoals s @ [\<lparr>text_prop = [], id_prop = rnd\<rparr>]"
  by (simp add: addNewGoals_def setters)

text \<open>
  Claim C6. A sequence of additions, with no deletion in between, from any store: the
  list afterwards is the list before followed by one goal per call, in call order. So its
  length is the length before plus the number of calls, and the goals that were there
  keep their places.
\<close>

theorem addNewGoals_sequence:
  "listOfGoals (run (map (\<lambda>(entered, rnd). AddItem entered rnd) calls) s)
     = listOfGoals s @ map (\<lambda>(entered, rnd). \<lparr>text_prop = entered, id_prop = rnd\<rparr>) calls
   \<and> length (listOfGoals (run (map (\<lambda>(entered, rnd). AddItem entered rnd) calls) s))
     = length (listOfGoals s) + length calls
   \<and> map text_prop (listOfGoals (run (map (\<lambda>(entered, rnd). AddItem entered rnd) calls) s))
     = map text_prop (listOfGoals s) @ map fst calls
   \<and> take (length (listOfGoals s))
        (listOfGoals (run (map (\<lambda>(entered, rnd). AddItem entered rnd) calls) s))
     = listOfGoals s"
  by (simp add: run_adds case_prod_beta comp_def)

text \<open>
  Claim C7, as amended. Nothing in the program compares a new id with the ids present,
  so uniqueness rests on the random source. If the ids it yields for the additions of a
  sequence are pairwise distinct, then after the sequence, run from the empty
  collection, no two goals share an id.
\<close>

theorem ids_unique_if_draws_distinct:
  "distinct (drawn_ids xs) \<Longrightarrow> distinct (map id_prop (listOfGoals (run xs initial_store)))"
  by (rule run_distinct) (simp_all add: initial_store_def)

theorem ids_unique_if_draws_distinct_witness:
  "distinct (drawn_ids [AddItem ''Learn Go'' ''0.25'', AddItem ''Learn Rust'' ''0.75'',
                        DeleteItem ''0.25'', AddItem ''Learn C'' ''0.5''])
   \<and> distinct (map id_prop (listOfGoals
        (run [AddItem ''Learn Go'' ''0.25'', AddItem ''Learn Rust'' ''0.75'',
              DeleteItem ''0.25'', AddItem ''Learn C'' ''0.5''] initial_store)))
   \<and> map id_prop (listOfGoals
        (run [AddItem ''Learn Go'' ''0.25'', AddItem ''Learn Rust'' ''0.75'',
              DeleteItem ''0.25'', AddItem ''Learn C'' ''0.5''] initial_store))
      = [''0.75'', ''0.5'']"
proof -
  let ?xs = "[AddItem ''Learn Go'' ''0.25'', AddItem ''Learn Rust'' ''0.75'',
              DeleteItem ''0.25'', AddItem ''Learn C'' ''0.5'']"
  have h: "distinct (drawn_ids ?xs)" by simp
  have ids: "map id_prop (listOfGoals (run ?xs initial_store)) = [''0.75'', ''0.5'']"
    by (simp add: run_def addNewGoals_def deleteGoal_def setters initial_store_def)
  from h ids_unique_if_draws_distinct [OF h] ids show ?thesis by blast
qed

text \<open>
  Two additions for which the random source yields the same string leave two goals with
  one id.
\<close>

theorem ids_unique_counterexample:
  "\<not> distinct (map id_prop (listOfGoals
        (run [AddItem ''Learn Go'' ''0.5'', AddItem ''Learn Rust'' ''0.5''] initial_store)))"
  by (simp add: run_def addNewGoals_def setters initial_store_def)

section \<open>The visibility flag\<close>

text \<open>
  Claim C8. \<open>modalVisibility\<close> (open) and \<open>handleCloseModal\<close> (close) write the flag and
  nothing else. Opening twice is opening once and leaves the flag true; closing twice is
  closing once; closing a store whose flag is already false returns that store.
\<close>

theorem modal_flag_idempotent:
  "modalVisibility (modalVisibility s) = modalVisibility s
   \<and> modalIsVisible (modalVisibility (modalVisibility s)) = True
   \<and> modalVisibility s = s\<lparr>modalIsVisible := True\<rparr>
   \<and> handleCloseModal (handleCloseModal s) = handleCloseModal s
   \<and> handleCloseModal s = s\<lparr>modalIsVisible := False\<rparr>
   \<and> (\<not> modalIsVisible s \<longrightarrow>
        handleCloseModal s = s \<and> modalIsVisible (handleCloseModal s) = False)"
  by (simp add: modalVisibility_def handleCloseModal_def setters)

theorem modal_flag_idempotent_witness:
  "\<not> modalIsVisible initial_store
   \<and> handleCloseModal initial_store = initial_store
   \<and> modalIsVisible (handleCloseModal initial_store) = False"
proof -
  have h: "\<not> modalIsVisible initial_store" by (simp add: initial_store_def)
  from h modal_flag_idempotent [of initial_store] show ?thesis by blast
qed

section \<open>The input form\<close>

text \<open>
  Claim C3. Submitting the form runs \<open>handleAddNewGoal\<close>: it calls the parent's handler
  with the draft and then empties the draft. With the handler \<open>App\<close> passes, whatever
  the flag and the draft were before, the goal with the draft as its text is at the end
  of the list, the flag is false and the draft is empty. While the form is shown, pressing
  the button labelled \<open>Add Goal\<close> is that submission; while it is hidden there is no such
  button to press.
\<close>

theorem submit_adds_goal_and_clears_draft:
  "(visibilty props \<longrightarrow>
      press ''Add Goal'' (GoalInput props s) args s
        = Some ((addGoalHanlder props (enteredGoal s) s)\<lparr>enteredGoal := ''''\<rparr>))
   \<and> (modalIsVisible s \<longrightarrow>
      press ''Add Goal'' (App_GoalInput rnd s) args s
        = Some (s\<lparr>listOfGoals := listOfGoals s @ [\<lparr>text_prop = enteredGoal s, id_prop = rnd\<rparr>],
                 modalIsVisible := False, enteredGoal := ''''\<rparr>))
   \<and> (\<not> modalIsVisible s \<longrightarrow> press ''Add Goal'' (App_GoalInput rnd s) args s = None)
   \<and> handleAddNewGoal parentAdd (enteredGoal s) s
        = (parentAdd (enteredGoal s) s)\<lparr>enteredGoal := ''''\<rparr>
   \<and> handleAddNewGoal (addNewGoals rnd) (enteredGoal s) s
        = s\<lparr>listOfGoals := listOfGoals s @ [\<lparr>text_prop = enteredGoal s, id_prop = rnd\<rparr>],
            modalIsVisible := False, enteredGoal := ''''\<rparr>
   \<and> modalIsVisible (handleAddNewGoal (addNewGoals rnd) (enteredGoal s) s) = False
   \<and> enteredGoal (handleAddNewGoal (addNewGoals rnd) (enteredGoal s) s) = ''''
   \<and> listOfGoals (handleAddNewGoal (addNewGoals rnd) (enteredGoal s) s)
     = listOfGoals s @ [\<lparr>text_prop = enteredGoal s, id_prop = rnd\<rparr>]"
  by (simp add: tree_defs handleAddNewGoal_def addNewGoals_def setters)

text \<open>
  The form opened and a draft typed, then submitted; and the hidden form of the initial
  store, where there is nothing to press.
\<close>

theorem submit_adds_goal_and_clears_draft_witness:
  "modalIsVisible (goalInputHandler ''Learn Go'' (modalVisibility initial_store))
   \<and> press ''Add Goal''
        (App_GoalInput ''0.25'' (goalInputHandler ''Learn Go'' (modalVisibility initial_store)))
        [GestureResponderEvent]
        (goalInputHandler ''Learn Go'' (modalVisibility initial_store))
      = Some \<lparr>listOfGoals = [\<lparr>text_prop = ''Learn Go'', id_prop = ''0.25''\<rparr>],
              modalIsVisible = False, enteredGoal = ''''\<rparr>
   \<and> \<not> modalIsVisible initial_store
   \<and> press ''Add Goal'' (App_GoalInput ''0.25'' initial_store)
        [GestureResponderEvent] initial_store = None"
proof -
  let ?s = "goalInputHandler ''Learn Go'' (modalVisibility initial_store)"
  have v: "modalIsVisible ?s"
    by (simp add: goalInputHandler_def modalVisibility_def setters)
  have h: "\<not> modalIsVisible initial_store"
    by (simp add: initial_store_def)
  have after: "?s\<lparr>listOfGoals := listOfGoals ?s @ [\<lparr>text_prop = enteredGoal ?s, id_prop = ''0.25''\<rparr>],
                  modalIsVisible := False, enteredGoal := ''''\<rparr>
      = \<lparr>listOfGoals = [\<lparr>text_prop = ''Learn Go'', id_prop = ''0.25''\<rparr>],
         modalIsVisible = False, enteredGoal = ''''\<rparr>"
    by (simp add: goalInputHandler_def modalVisibility_def setters initial_store_def)
  from v h after
    submit_adds_goal_and_clears_draft [where s = ?s and rnd = "''0.25''" and args = "[GestureResponderEvent]"]
    submit_adds_goal_and_clears_draft [where s = initial_store and rnd = "''0.25''"
      and args = "[GestureResponderEvent]"]
  show ?thesis by simp
qed

text \<open>
  Claim C4. Cancelling the form runs the parent's \<open>closeModal\<close>, which in \<open>App\<close> is
  \<open>handleCloseModal\<close>: the flag becomes false, the draft is what it was, and the list of
  goals is what it was, for every draft. While the form is shown, pressing the button
  labelled \<open>Cancel\<close> is that call; while it is hidden there is no such button to press.
\<close>

theorem cancel_closes_and_keeps_draft:
  "(visibilty props \<longrightarrow>
      press ''Cancel'' (GoalInput props s) args s = Some (closeModal props args s))
   \<and> (modalIsVisible s \<longrightarrow>
      press ''Cancel'' (App_GoalInput rnd s) args s = Some (handleCloseModal s))
   \<and> (\<not> modalIsVisible s \<longrightarrow> press ''Cancel'' (App_GoalInput rnd s) args s = None)
   \<and> nullary handleCloseModal args s = s\<lparr>modalIsVisible := False\<rparr>
   \<and> modalIsVisible (handleCloseModal s) = False
   \<and> enteredGoal (handleCloseModal s) = enteredGoal s
   \<and> listOfGoals (handleCloseModal s) = listOfGoals s"
  by (simp add: tree_defs handleCloseModal_def setters)

text \<open>
  The form opened and a draft typed, then cancelled: the draft is still there. And the
  hidden form of the initial store.
\<close>

theorem cancel_closes_and_keeps_draft_witness:
  "modalIsVisible (goalInputHandler ''Learn Go'' (modalVisibility initial_store))
   \<and> press ''Cancel''
        (App_GoalInput ''0.25'' (goalInputHandler ''Learn Go'' (modalVisibility initial_store)))
        [GestureResponderEvent]
        (goalInputHandler ''Learn Go'' (modalVisibility initial_store))
      = Some \<lparr>listOfGoals = [], modalIsVisible = False, enteredGoal = ''Learn Go''\<rparr>
   \<and> \<not> modalIsVisible initial_store
   \<and> press ''Cancel'' (App_GoalInput ''0.25'' initial_store)
        [GestureResponderEvent] initial_store = None"
proof -
  let ?s = "goalInputHandler ''Learn Go'' (modalVisibility initial_store)"
  have v: "modalIsVisible ?s"
    by (simp add: goalInputHandler_def modalVisibility_def setters)
  have h: "\<not> modalIsVisible initial_store"
    by (simp add: initial_store_def)
  have after: "handleCloseModal ?s
      = \<lparr>listOfGoals = [], modalIsVisible = False, enteredGoal = ''Learn Go''\<rparr>"
    by (simp add: handleCloseModal_def goalInputHandler_def modalVisibility_def setters
        initial_store_def)
  from v h after
    cancel_closes_and_keeps_draft [where s = ?s and rnd = "''0.25''" and args = "[GestureResponderEvent]"]
    cancel_closes_and_keeps_draft [where s = initial_store and rnd = "''0.25''"
      and args = "[GestureResponderEvent]"]
  show ?thesis by simp
qed

section \<open>The action button\<close>

text \<open>
  Claim C9, as amended. \<open>ActionButton\<close> renders one pressable region, labelled with
  \<open>content\<close>, whose \<open>onPress\<close> is the handler itself. An activation therefore calls the
  handler once, with exactly the argument list the platform supplies: the button adds no
  argument and removes none. A handler that records its argument lists shows it.
\<close>

theorem ActionButton_forwards:
  "pressables (ActionButton content handler styles) = [(content, handler)]
   \<and> press content (ActionButton content handler styles) args s = Some (handler args s)
   \<and> press content (ActionButton content (\<lambda>a calls. calls @ [a]) styles) args calls
       = Some (calls @ [args])"
  by (simp add: press_def ActionButton_def)

text \<open>
  React Native calls \<open>onPress\<close> with the press event. The recording handler then holds
  one call with that event as its argument, not one call with no argument.
\<close>

theorem ActionButton_empty_arguments_counterexample:
  "press ''Cancel'' (ActionButton ''Cancel'' (\<lambda>a calls. calls @ [a]) cancelButton)
      [GestureResponderEvent] [] \<noteq> Some [[]]"
  by (simp add: press_def ActionButton_def)

end
